theory Spec2Isabelle
  imports Complex_Main
begin

section \<open>Bernoulli approximation of a Poisson process: the two simulation scripts\<close>

text \<open>
  The repository holds two scripts that run the same experiment:
  \<^verbatim>\<open>simulate_poisson_approx.py\<close> (NumPy, vectorised) and
  \<^verbatim>\<open>simulate_poisson_approx_purepy.py\<close> (scalar, standard library only).
  Both are straight-line module code over the globals \<^verbatim>\<open>T, lam, n, p, trials, seed\<close>;
  the model makes the constants parameters, so that a statement can range over every
  parameter set, and keeps the names of the globals.

  Conventions of the embedding.
  \<^item> A Python float is a \<^typ>\<open>real\<close>: rounding is not modelled, arithmetic is exact.
    The one float that is not a real number and that the scripts can produce, NumPy's
    \<^verbatim>\<open>nan\<close> for the mean of an empty array, is a value of its own.
  \<^item> \<^verbatim>\<open>n\<close> and \<open>trials\<close> are natural numbers (the parameter set has them positive);
    \<^verbatim>\<open>n = 0\<close> raises at \<^verbatim>\<open>p = lam * T / n\<close>.
  \<^item> The seeded generator is the stream of uniform draws it will produce, and drawing
    is explicit state passing: a draw returns the head and the rest of the stream.
  \<^item> An exception is a value \<open>Inl e\<close> of a sum type.
\<close>

subsection \<open>Values, errors and the random stream\<close>

datatype error = ZeroDivisionError | IndexError | ValueError

datatype pyfloat = NaN | Float real


type_synonym rng = "nat \<Rightarrow> real"

definition random_random :: "rng \<Rightarrow> real \<times> rng" where
  \<comment> \<open>\<^verbatim>\<open>random.random()\<close>: the next draw, and the generator advanced by one.\<close>
  "random_random g = (g 0, \<lambda>k. g (Suc k))"

definition np_random_rand :: "nat \<Rightarrow> rng \<Rightarrow> real list \<times> rng" where
  \<comment> \<open>\<^verbatim>\<open>np.random.rand(k)\<close>: the next \<open>k\<close> draws as an array, the generator advanced by \<open>k\<close>.\<close>
  "np_random_rand k g = (map g [0..<k], \<lambda>i. g (k + i))"

definition uniform01 :: "rng \<Rightarrow> bool" where
  \<comment> \<open>Every draw of the stream lies in the half-open unit interval.\<close>
  "uniform01 g = (\<forall>k. 0 \<le> g k \<and> g k < 1)"

subsection \<open>The pure-Python script\<close>

text \<open>
  Lines 27-29, the inner loop of the count sampler:
  \<^verbatim>\<open>for _ in range(n): if r() < threshold: c += 1\<close>.
\<close>

fun bernoulli_trials :: "nat \<Rightarrow> real \<Rightarrow> int \<Rightarrow> rng \<Rightarrow> int \<times> rng" where
  "bernoulli_trials 0 threshold c g = (c, g)"
| "bernoulli_trials (Suc k) threshold c g =
     (case random_random g of
        (u, g') \<Rightarrow> bernoulli_trials k threshold (if u < threshold then c + 1 else c) g')"

text \<open>
  Lines 20-30, the outer loop: \<^verbatim>\<open>for _ in range(trials): c = 0; ...; counts.append(c)\<close>.
\<close>

fun simulate_counts :: "nat \<Rightarrow> nat \<Rightarrow> real \<Rightarrow> int list \<Rightarrow> rng \<Rightarrow> int list \<times> rng" where
  "simulate_counts 0 n p counts g = (counts, g)"
| "simulate_counts (Suc t) n p counts g =
     (case bernoulli_trials n p 0 g of
        (c, g') \<Rightarrow> simulate_counts t n p (counts @ [c]) g')"

text \<open>
  Lines 33-37: \<^verbatim>\<open>for i in range(n): if r() < p: indices.append(i)\<close>. The first argument
  is what is left of \<^verbatim>\<open>range(n)\<close>.
\<close>

fun hit_indices :: "nat list \<Rightarrow> real \<Rightarrow> nat list \<Rightarrow> rng \<Rightarrow> nat list \<times> rng" where
  "hit_indices [] p indices g = (indices, g)"
| "hit_indices (i # rest) p indices g =
     (case random_random g of
        (u, g') \<Rightarrow> hit_indices rest p (if u < p then indices @ [i] else indices) g')"

text \<open>
  Line 40, the comprehension
  \<^verbatim>\<open>[ (i + random.random()) * (T/n) for i in indices ]\<close>: one draw per index, in the order
  of the list. It is reached with \<^verbatim>\<open>n\<close> non-zero only (line 13 has raised otherwise).
\<close>

fun jittered_times :: "nat list \<Rightarrow> real \<Rightarrow> nat \<Rightarrow> rng \<Rightarrow> real list \<times> rng" where
  "jittered_times [] T n g = ([], g)"
| "jittered_times (i # rest) T n g =
     (case random_random g of
        (u, g') \<Rightarrow>
          (case jittered_times rest T n g' of
             (ts, g'') \<Rightarrow> ((real i + u) * (T / real n) # ts, g'')))"

text \<open>
  Line 42: \<^verbatim>\<open>[times[0]] + [times[i] - times[i-1] for i in range(1, len(times))]\<close>.
  \<^verbatim>\<open>times[0]\<close> raises on the empty list.
\<close>

definition first_and_gaps :: "real list \<Rightarrow> error + real list" where
  "first_and_gaps ts =
     (if ts = [] then Inl IndexError
      else Inr ([ts ! 0] @ map (\<lambda>i. ts ! i - ts ! (i - 1)) [1..<length ts]))"

text \<open>
  Lines 33-45, the realization block: indices, times (sorted), interarrivals, and the
  generator after it.
\<close>

definition realization_py ::
  "real \<Rightarrow> nat \<Rightarrow> real \<Rightarrow> rng \<Rightarrow> error + (nat list \<times> real list \<times> real list \<times> rng)" where
  "realization_py T n p g =
     (case hit_indices [0..<n] p [] g of
        (indices, g1) \<Rightarrow>
          if indices \<noteq> [] then
            (case jittered_times indices T n g1 of
               (ts, g2) \<Rightarrow>
                 (case first_and_gaps (sort ts) of
                    Inl e \<Rightarrow> Inl e
                  | Inr interarrivals \<Rightarrow> Inr (indices, sort ts, interarrivals, g2)))
          else Inr (indices, [], [], g1))"

text \<open>
  Lines 39-45 as a function of the realization alone. The script tests \<^verbatim>\<open>indices\<close>, and
  \<^verbatim>\<open>times\<close> has one element per index, so the test is the same as \<^verbatim>\<open>times\<close> being
  non-empty (lemma \<open>realization_py_interarrivals\<close> below ties this function to the block).
\<close>

definition interarrivals_py :: "real list \<Rightarrow> error + real list" where
  "interarrivals_py ts = (if ts \<noteq> [] then first_and_gaps ts else Inr [])"

subsection \<open>The NumPy script\<close>

definition np_nonzero :: "bool list \<Rightarrow> nat list" where
  \<comment> \<open>\<^verbatim>\<open>np.nonzero(a)[0]\<close>: the positions of the true entries, ascending.\<close>
  "np_nonzero a = filter (\<lambda>i. a ! i) [0..<length a]"

definition np_diff :: "real list \<Rightarrow> real list" where
  \<comment> \<open>\<^verbatim>\<open>np.diff(a)\<close>: \<open>a[i+1] - a[i]\<close>, one element fewer than \<open>a\<close>.\<close>
  "np_diff a = map (\<lambda>i. a ! (i + 1) - a ! i) [0..<length a - 1]"

text \<open>Lines 27-28: \<^verbatim>\<open>bernoulli = np.random.rand(n) < p; indices = np.nonzero(bernoulli)[0]\<close>.\<close>

definition indices_np :: "nat \<Rightarrow> real \<Rightarrow> rng \<Rightarrow> nat list \<times> rng" where
  "indices_np n p g =
     (case np_random_rand n g of
        (us, g1) \<Rightarrow> (let bernoulli = map (\<lambda>u. u < p) us in (np_nonzero bernoulli, g1)))"

text \<open>
  Line 31, before the sort:
  \<^verbatim>\<open>(indices + np.random.rand(len(indices))) * (T / n)\<close>, elementwise.
\<close>

definition times_unsorted_np :: "nat list \<Rightarrow> real \<Rightarrow> nat \<Rightarrow> rng \<Rightarrow> real list \<times> rng" where
  "times_unsorted_np indices T n g =
     (case np_random_rand (length indices) g of
        (us, g2) \<Rightarrow>
          (map (\<lambda>x. x * (T / real n)) (map2 (\<lambda>i u. real i + u) indices us), g2))"

text \<open>Lines 27-36, the realization block.\<close>

definition realization_np ::
  "real \<Rightarrow> nat \<Rightarrow> real \<Rightarrow> rng \<Rightarrow> nat list \<times> real list \<times> real list \<times> rng" where
  "realization_np T n p g =
     (case indices_np n p g of
        (indices, g1) \<Rightarrow>
          if length indices > 0 then
            (case times_unsorted_np indices T n g1 of
               (ts, g2) \<Rightarrow> (indices, sort ts, np_diff ([0] @ sort ts), g2))
          else (indices, [], [], g1))"

text \<open>
  Lines 30-36 as a function of the realization alone (\<^verbatim>\<open>times\<close> has one element per
  index; lemma \<open>realization_np_interarrivals\<close> below ties it to the block).
\<close>

definition interarrivals_np :: "real list \<Rightarrow> real list" where
  "interarrivals_np ts = (if length ts > 0 then np_diff ([0] @ ts) else [])"

subsection \<open>Summary statistics and the summary record\<close>


text \<open>
  Pure Python, lines 47-57. \<^verbatim>\<open>sum(counts) / len(counts)\<close> raises on an empty list;
  the interarrival statistics are \<^verbatim>\<open>None\<close> when there are no interarrivals.
\<close>

definition stats_py ::
  "int list \<Rightarrow> real list \<Rightarrow> error + (pyfloat \<times> pyfloat \<times> pyfloat option \<times> pyfloat option)" where
  "stats_py counts interarrivals =
     (if length counts = 0 then Inl ZeroDivisionError
      else
        let mean_count = real_of_int (sum_list counts) / real (length counts);
            var_count = sum_list (map (\<lambda>x. (real_of_int x - mean_count)\<^sup>2) counts)
                          / real (length counts)
        in if interarrivals \<noteq> [] then
             let mean_ia = sum_list interarrivals / real (length interarrivals);
                 var_ia = sum_list (map (\<lambda>x. (x - mean_ia)\<^sup>2) interarrivals)
                            / real (length interarrivals)
             in Inr (Float mean_count, Float var_count, Some (Float mean_ia), Some (Float var_ia))
           else Inr (Float mean_count, Float var_count, None, None))"



text \<open>
  NumPy's reductions, as its documentation gives them: \<^verbatim>\<open>a.mean()\<close> is the sum over the
  number of elements, \<^verbatim>\<open>a.var(ddof=0)\<close> is the mean of the squared deviations from
  \<^verbatim>\<open>a.mean()\<close> with divisor \<open>N - ddof = N\<close>; on an empty array both are \<^verbatim>\<open>nan\<close> (with a
  warning, no exception).
\<close>

definition np_mean :: "real list \<Rightarrow> pyfloat" where
  "np_mean a = (if a = [] then NaN else Float (sum_list a / real (length a)))"

definition np_var_ddof0 :: "real list \<Rightarrow> pyfloat" where
  "np_var_ddof0 a =
     (if a = [] then NaN
      else Float (sum_list (map (\<lambda>x. (x - sum_list a / real (length a))\<^sup>2) a) / real (length a)))"

text \<open>NumPy script, lines 39-52.\<close>

definition stats_np ::
  "int list \<Rightarrow> real list \<Rightarrow> pyfloat \<times> pyfloat \<times> pyfloat option \<times> pyfloat option" where
  "stats_np counts interarrivals =
     (let mean_count = np_mean (map real_of_int counts);
          var_count = np_var_ddof0 (map real_of_int counts)
      in if length interarrivals > 0 then
           (mean_count, var_count, Some (np_mean interarrivals), Some (np_var_ddof0 interarrivals))
         else (mean_count, var_count, None, None))"



section \<open>The interarrival extractor\<close>

lemma first_and_gaps_Inr:
  "ts \<noteq> [] \<Longrightarrow>
     first_and_gaps ts = Inr (ts ! 0 # map (\<lambda>i. ts ! i - ts ! (i - 1)) [1..<length ts])"
  by (simp add: first_and_gaps_def)

lemma length_np_diff: "length (np_diff a) = length a - 1"
  by (simp add: np_diff_def)

lemma nth_np_diff: "k < length a - 1 \<Longrightarrow> np_diff a ! k = a ! (k + 1) - a ! k"
  by (simp add: np_diff_def)

lemma np_diff_Cons_Cons: "np_diff (x # y # ys) = (y - x) # np_diff (y # ys)"
proof (rule nth_equalityI)
  show "length (np_diff (x # y # ys)) = length ((y - x) # np_diff (y # ys))"
    by (simp add: length_np_diff)
next
  fix k
  assume "k < length (np_diff (x # y # ys))"
  then have k: "k < Suc (length ys)"
    by (simp add: length_np_diff)
  show "np_diff (x # y # ys) ! k = ((y - x) # np_diff (y # ys)) ! k"
  proof (cases k)
    case 0
    then show ?thesis by (simp add: nth_np_diff)
  next
    case (Suc j)
    with k show ?thesis by (simp add: nth_np_diff)
  qed
qed

lemma np_diff_single: "np_diff [x] = []"
  by (simp add: np_diff_def)

lemma sum_list_np_diff: "sum_list (np_diff (x # ys)) = last (x # ys) - x"
proof (induction ys arbitrary: x)
  case Nil
  show ?case by (simp add: np_diff_single)
next
  case (Cons y ys)
  have "sum_list (np_diff (x # y # ys)) = (y - x) + sum_list (np_diff (y # ys))"
    by (simp add: np_diff_Cons_Cons)
  also have "\<dots> = (y - x) + (last (y # ys) - y)"
    by (simp only: Cons.IH)
  finally show ?case by simp
qed

lemma interarrivals_py_eq_np: "interarrivals_py ts = Inr (interarrivals_np ts)"
proof (cases "ts = []")
  case True
  then show ?thesis by (simp add: interarrivals_py_def interarrivals_np_def)
next
  case False
  have "ts ! 0 # map (\<lambda>i. ts ! i - ts ! (i - 1)) [1..<length ts] = np_diff (0 # ts)"
  proof (rule nth_equalityI)
    show "length (ts ! 0 # map (\<lambda>i. ts ! i - ts ! (i - 1)) [1..<length ts])
            = length (np_diff (0 # ts))"
      using False by (simp add: length_np_diff)
  next
    fix k
    assume "k < length (ts ! 0 # map (\<lambda>i. ts ! i - ts ! (i - 1)) [1..<length ts])"
    with False have k: "k < length ts" by simp
    show "(ts ! 0 # map (\<lambda>i. ts ! i - ts ! (i - 1)) [1..<length ts]) ! k = np_diff (0 # ts) ! k"
    proof (cases k)
      case 0
      with k show ?thesis by (simp add: nth_np_diff)
    next
      case (Suc j)
      with k have "[1..<length ts] ! j = Suc j" by simp
      with Suc k show ?thesis by (simp add: nth_np_diff)
    qed
  qed
  with False show ?thesis
    by (simp add: interarrivals_py_def interarrivals_np_def first_and_gaps_Inr)
qed

lemma length_interarrivals_np: "length (interarrivals_np ts) = length ts"
  by (simp add: interarrivals_np_def length_np_diff)

lemma nth_interarrivals_np:
  "k < length ts \<Longrightarrow>
     interarrivals_np ts ! k = (if k = 0 then ts ! 0 else ts ! k - ts ! (k - 1))"
proof -
  assume k: "k < length ts"
  then have "ts \<noteq> []" by auto
  with k show ?thesis
    by (cases k) (simp_all add: interarrivals_np_def nth_np_diff)
qed

lemma sum_list_interarrivals_np: "ts \<noteq> [] \<Longrightarrow> sum_list (interarrivals_np ts) = last ts"
  by (simp add: interarrivals_np_def sum_list_np_diff)

section \<open>The realization builder\<close>

text \<open>
  Both builders are first brought to a closed form over the stream: the hit indices are
  the positions \<open>i < n\<close> whose draw is below \<open>p\<close>, and the \<open>k\<close>-th hit is jittered by the
  \<open>k\<close>-th draw after the first \<open>n\<close>.
\<close>

lemma map_shift_upt: "map g [0..<Suc m] = g 0 # map (\<lambda>k. g (Suc k)) [0..<m]"
  by (simp only: upt_conv_Cons [OF zero_less_Suc] list.map map_Suc_upt [symmetric] map_map comp_def)

lemma hit_indices_closed:
  "hit_indices xs p acc g =
     (acc @ map fst (filter (\<lambda>(i, u). u < p) (zip xs (map g [0..<length xs]))),
      \<lambda>k. g (length xs + k))"
proof (induction xs arbitrary: acc g)
  case Nil
  show ?case by simp
next
  case (Cons i rest)
  show ?case
    by (simp only: hit_indices.simps random_random_def prod.case Cons.IH length_Cons map_shift_upt)
       simp
qed

lemma zip_upt_map: "zip [0..<n] (map g [0..<n]) = map (\<lambda>i. (i, g i)) [0..<n]"
  by (simp add: zip_map2 zip_same_conv_map)

lemma hit_indices_range:
  "hit_indices [0..<n] p [] g = (filter (\<lambda>i. g i < p) [0..<n], \<lambda>k. g (n + k))"
  by (simp add: hit_indices_closed zip_upt_map filter_map comp_def)

lemma indices_np_closed:
  "indices_np n p g = (filter (\<lambda>i. g i < p) [0..<n], \<lambda>k. g (n + k))"
  by (auto simp: indices_np_def np_random_rand_def np_nonzero_def intro: filter_cong)

lemma jittered_times_closed:
  "jittered_times is T n g =
     (map2 (\<lambda>i u. (real i + u) * (T / real n)) is (map g [0..<length is]),
      \<lambda>k. g (length is + k))"
proof (induction "is" arbitrary: g)
  case Nil
  show ?case by simp
next
  case (Cons i rest)
  show ?case
    by (simp only: jittered_times.simps random_random_def prod.case Cons.IH length_Cons map_shift_upt)
       simp
qed

lemma times_unsorted_np_closed:
  "times_unsorted_np is T n g =
     (map2 (\<lambda>i u. (real i + u) * (T / real n)) is (map g [0..<length is]),
      \<lambda>k. g (length is + k))"
  by (simp add: times_unsorted_np_def np_random_rand_def split_def)






lemma uniform01_shift: "uniform01 g \<Longrightarrow> uniform01 (\<lambda>k. g (m + k))"
  by (simp add: uniform01_def)


lemma realization_np_closed:
  "realization_np T n p g =
     (let is = filter (\<lambda>i. g i < p) [0..<n];
          ts = map2 (\<lambda>i u. (real i + u) * (T / real n)) is
                 (map (\<lambda>k. g (n + k)) [0..<length is])
      in if is \<noteq> [] then (is, sort ts, np_diff (0 # sort ts), \<lambda>k. g (n + (length is + k)))
         else (is, [], [], \<lambda>k. g (n + k)))"
  by (simp add: realization_np_def indices_np_closed times_unsorted_np_closed Let_def)

lemma first_and_gaps_np_diff: "ts \<noteq> [] \<Longrightarrow> first_and_gaps ts = Inr (np_diff (0 # ts))"
  using interarrivals_py_eq_np [of ts]
  by (simp add: interarrivals_py_def interarrivals_np_def)

lemma realization_py_eq_np: "realization_py T n p g = Inr (realization_np T n p g)"
proof -
  let ?is = "filter (\<lambda>i. g i < p) [0..<n]"
  let ?ts = "map2 (\<lambda>i u. (real i + u) * (T / real n)) ?is
               (map (\<lambda>k. g (n + k)) [0..<length ?is])"
  show ?thesis
  proof (cases "?is = []")
    case True
    then show ?thesis
      by (simp add: realization_py_def hit_indices_range realization_np_closed)
  next
    case False
    have "length (sort ?ts) = length ?is" by simp
    with False have "sort ?ts \<noteq> []" by (metis length_0_conv)
    then have "first_and_gaps (sort ?ts) = Inr (np_diff (0 # sort ?ts))"
      by (rule first_and_gaps_np_diff)
    with False show ?thesis
      by (simp add: realization_py_def hit_indices_range jittered_times_closed
          realization_np_closed Let_def)
  qed
qed

lemma realization_np_interarrivals:
  assumes "realization_np T n p g = (is, ts, ia, g')"
  shows "ia = interarrivals_np ts" and "length ts = length is"
proof -
  let ?is = "filter (\<lambda>i. g i < p) [0..<n]"
  let ?ts = "map2 (\<lambda>i u. (real i + u) * (T / real n)) ?is
               (map (\<lambda>k. g (n + k)) [0..<length ?is])"
  have len: "length (sort ?ts) = length ?is" by simp
  show "ia = interarrivals_np ts"
  proof (cases "?is = []")
    case True
    with assms show ?thesis
      by (simp add: realization_np_closed interarrivals_np_def)
  next
    case False
    with len have ne: "sort ?ts \<noteq> []" by (metis length_0_conv)
    from False assms have eqs: "ts = sort ?ts" "ia = np_diff (0 # sort ?ts)"
      by (auto simp add: realization_np_closed Let_def)
    have "ts \<noteq> []" unfolding eqs(1) by (rule ne)
    then have "interarrivals_np ts = np_diff (0 # ts)"
      by (simp add: interarrivals_np_def)
    with eqs show ?thesis by (simp only:)
  qed
  show "length ts = length is"
  proof (cases "?is = []")
    case True
    with assms show ?thesis
      by (auto simp add: realization_np_closed)
  next
    case False
    with assms have "ts = sort ?ts" "is = ?is"
      by (auto simp add: realization_np_closed Let_def)
    with len show ?thesis by (simp only:)
  qed
qed

lemma realization_py_interarrivals:
  assumes "realization_py T n p g = Inr (is, ts, ia, g')"
  shows "interarrivals_py ts = Inr ia" and "length ts = length is"
proof -
  from assms have np: "realization_np T n p g = (is, ts, ia, g')"
    by (simp add: realization_py_eq_np)
  then have "ia = interarrivals_np ts"
    by (rule realization_np_interarrivals(1))
  then show "interarrivals_py ts = Inr ia"
    by (simp add: interarrivals_py_eq_np)
  from np show "length ts = length is"
    by (rule realization_np_interarrivals(2))
qed


section \<open>The count sampler of the pure-Python script\<close>

text \<open>
  The \<open>j\<close>-th count is the number of draws below \<open>p\<close> in the \<open>j\<close>-th block of \<open>n\<close> draws.
\<close>

lemma length_filter_shift:
  "length (filter P [0..<Suc k]) = (if P 0 then 1 else 0) + length (filter (\<lambda>i. P (Suc i)) [0..<k])"
proof -
  have "[0..<Suc k] = 0 # map Suc [0..<k]"
    by (simp only: upt_conv_Cons [OF zero_less_Suc] map_Suc_upt)
  then show ?thesis
    by (simp add: filter_map comp_def)
qed

lemma bernoulli_trials_closed:
  "bernoulli_trials k p c g =
     (c + int (length (filter (\<lambda>i. g i < p) [0..<k])), \<lambda>i. g (k + i))"
proof (induction k arbitrary: c g)
  case 0
  show ?case by simp
next
  case (Suc k)
  show ?case
    by (simp only: bernoulli_trials.simps random_random_def prod.case Suc.IH
        length_filter_shift [of "\<lambda>i. g i < p"])
       simp
qed

lemma simulate_counts_closed:
  "simulate_counts t n p acc g =
     (acc @ map (\<lambda>j. int (length (filter (\<lambda>i. g (j * n + i) < p) [0..<n]))) [0..<t],
      \<lambda>i. g (t * n + i))"
proof (induction t arbitrary: acc g)
  case 0
  show ?case by simp
next
  case (Suc t)
  show ?case
    by (simp only: simulate_counts.simps bernoulli_trials_closed prod.case Suc.IH
        map_shift_upt [of _ t])
       (simp add: add.assoc)
qed


lemma simulate_counts_uniform:
  "uniform01 g \<Longrightarrow> uniform01 (snd (simulate_counts t n p [] g))"
  by (simp add: simulate_counts_closed uniform01_shift)






section \<open>Properties of the interarrival extractor and of the two builders\<close>

text \<open>
  C2. For every realization, the interarrival extractor of either script returns a
  sequence of the same length, whose first element is the first timestamp and whose
  \<open>k\<close>-th element, for \<open>k \<ge> 1\<close>, is the difference of the \<open>k\<close>-th and the \<open>(k - 1)\<close>-th
  timestamps; it is empty exactly when the realization is empty. The pure-Python
  extractor never raises.
\<close>

theorem interarrivals_gaps:
  "(\<exists>ia. interarrivals_py ts = Inr ia
      \<and> length ia = length ts
      \<and> (ia = [] \<longleftrightarrow> ts = [])
      \<and> (\<forall>k < length ts. ia ! k = (if k = 0 then ts ! 0 else ts ! k - ts ! (k - 1))))
   \<and> length (interarrivals_np ts) = length ts
   \<and> (interarrivals_np ts = [] \<longleftrightarrow> ts = [])
   \<and> (\<forall>k < length ts.
         interarrivals_np ts ! k = (if k = 0 then ts ! 0 else ts ! k - ts ! (k - 1)))"
proof -
  have len: "length (interarrivals_np ts) = length ts"
    by (rule length_interarrivals_np)
  then have empty: "interarrivals_np ts = [] \<longleftrightarrow> ts = []"
    by (metis length_0_conv)
  have nth: "\<forall>k < length ts.
      interarrivals_np ts ! k = (if k = 0 then ts ! 0 else ts ! k - ts ! (k - 1))"
    by (intro allI impI) (rule nth_interarrivals_np)
  from len empty nth interarrivals_py_eq_np [of ts] show ?thesis
    by blast
qed

theorem interarrivals_gaps_witness:
  "(1::nat) < length [1/4, 3/4, 2 :: real]
   \<and> (\<exists>ia. interarrivals_py [1/4, 3/4, 2] = Inr ia \<and> length ia = 3 \<and> ia ! 1 = 1/2)
   \<and> length (interarrivals_np [1/4, 3/4, 2]) = 3
   \<and> interarrivals_np [1/4, 3/4, 2] ! 1 = 1/2"
proof -
  let ?ts = "[1/4, 3/4, 2] :: real list"
  from interarrivals_gaps [of ?ts]
  obtain ia where ia: "interarrivals_py ?ts = Inr ia" "length ia = length ?ts"
    and nth: "\<forall>k < length ?ts. ia ! k = (if k = 0 then ?ts ! 0 else ?ts ! k - ?ts ! (k - 1))"
    and np: "length (interarrivals_np ?ts) = length ?ts"
      "\<forall>k < length ?ts.
         interarrivals_np ?ts ! k = (if k = 0 then ?ts ! 0 else ?ts ! k - ?ts ! (k - 1))"
    by blast
  have one: "(1::nat) < length ?ts" by simp
  from nth one have "ia ! 1 = (if (1::nat) = 0 then ?ts ! 0 else ?ts ! 1 - ?ts ! (1 - 1))"
    by blast
  then have "ia ! 1 = 1/2" by simp
  moreover from np(2) one
  have "interarrivals_np ?ts ! 1 = (if (1::nat) = 0 then ?ts ! 0 else ?ts ! 1 - ?ts ! (1 - 1))"
    by blast
  then have "interarrivals_np ?ts ! 1 = 1/2" by simp
  ultimately show ?thesis using ia np(1) by simp
qed

text \<open>
  C4. For every non-empty realization the interarrivals of either script sum to the
  last timestamp (over the reals).
\<close>

theorem interarrivals_telescope:
  assumes "ts \<noteq> []"
  shows "(\<exists>ia. interarrivals_py ts = Inr ia \<and> sum_list ia = last ts)
    \<and> sum_list (interarrivals_np ts) = last ts"
  using assms by (simp add: interarrivals_py_eq_np sum_list_interarrivals_np)

theorem interarrivals_telescope_witness:
  "[1/4, 3/4, 2 :: real] \<noteq> []
   \<and> (\<exists>ia. interarrivals_py [1/4, 3/4, 2] = Inr ia \<and> sum_list ia = 2)
   \<and> sum_list (interarrivals_np [1/4, 3/4, 2]) = 2"
  using interarrivals_telescope [of "[1/4, 3/4, 2]"] by simp

text \<open>
  C10. Fed the same stream of draws, the pure-Python realization block does not raise
  and returns what the NumPy block returns: the same hit indices, the same realization,
  the same interarrivals and the same generator state. The two interarrival extractors
  are equal on every list of timestamps.
\<close>

theorem realization_py_np_equal:
  "realization_py T n p g = Inr (realization_np T n p g)
   \<and> interarrivals_py ts = Inr (interarrivals_np ts)"
proof
  show "realization_py T n p g = Inr (realization_np T n p g)"
    by (rule realization_py_eq_np)
  show "interarrivals_py ts = Inr (interarrivals_np ts)"
    by (rule interarrivals_py_eq_np)
qed











section \<open>The statistics summarizer and the summary record\<close>

lemma sum_list_nth_real: "sum_list (map f xs) = (\<Sum>k<length xs. f (xs ! k))"
  for f :: "'a \<Rightarrow> real"
proof -
  have "sum_list (map f xs) = (\<Sum>k = 0..<length (map f xs). map f xs ! k)"
    by (rule sum_list_sum_nth)
  also have "\<dots> = (\<Sum>k = 0..<length xs. f (xs ! k))"
    by (intro sum.cong) simp_all
  finally show ?thesis by (simp add: lessThan_atLeast0)
qed

lemma real_of_int_sum_list: "sum_list (map real_of_int xs) = real_of_int (sum_list xs)"
  by (induction xs) simp_all

lemma stats_py_nonempty:
  assumes "counts \<noteq> []"
  shows "stats_py counts ia =
     Inr (Float (real_of_int (sum_list counts) / real (length counts)),
          Float (sum_list (map (\<lambda>x. (real_of_int x
                    - real_of_int (sum_list counts) / real (length counts))\<^sup>2) counts)
                  / real (length counts)),
          if ia = [] then None else Some (Float (sum_list ia / real (length ia))),
          if ia = [] then None
          else Some (Float (sum_list (map (\<lambda>x. (x - sum_list ia / real (length ia))\<^sup>2) ia)
                  / real (length ia))))"
  using assms by (simp add: stats_py_def Let_def)

lemma stats_np_nonempty:
  assumes "counts \<noteq> []"
  shows "stats_np counts ia =
         (Float (real_of_int (sum_list counts) / real (length counts)),
          Float (sum_list (map (\<lambda>x. (real_of_int x
                    - real_of_int (sum_list counts) / real (length counts))\<^sup>2) counts)
                  / real (length counts)),
          if ia = [] then None else Some (Float (sum_list ia / real (length ia))),
          if ia = [] then None
          else Some (Float (sum_list (map (\<lambda>x. (x - sum_list ia / real (length ia))\<^sup>2) ia)
                  / real (length ia))))"
  using assms
  by (simp add: stats_np_def Let_def np_mean_def np_var_ddof0_def comp_def
      real_of_int_sum_list)


text \<open>
  C6. For every non-empty count sample the two scripts compute the same statistics: the
  mean is the sum over the number of elements, the variance is the sum of the squared
  deviations from that mean over the number of elements (the population variance);
  the same holds for a non-empty interarrival sequence, and for an empty one the mean
  and the variance are \<^verbatim>\<open>None\<close>. The pure-Python script does not raise.
\<close>

theorem population_variance:
  assumes "counts \<noteq> []"
  shows "\<exists>m v mean_ia var_ia.
           stats_py counts ia = Inr (Float m, Float v, mean_ia, var_ia)
         \<and> stats_np counts ia = (Float m, Float v, mean_ia, var_ia)
         \<and> m = (\<Sum>k<length counts. real_of_int (counts ! k)) / real (length counts)
         \<and> v = (\<Sum>k<length counts. (real_of_int (counts ! k) - m)\<^sup>2) / real (length counts)
         \<and> (ia = [] \<longrightarrow> mean_ia = None \<and> var_ia = None)
         \<and> (ia \<noteq> [] \<longrightarrow>
              (\<exists>mi vi. mean_ia = Some (Float mi) \<and> var_ia = Some (Float vi)
                 \<and> mi = (\<Sum>k<length ia. ia ! k) / real (length ia)
                 \<and> vi = (\<Sum>k<length ia. (ia ! k - mi)\<^sup>2) / real (length ia)))"
proof -
  let ?m = "real_of_int (sum_list counts) / real (length counts)"
  let ?v = "sum_list (map (\<lambda>x. (real_of_int x - ?m)\<^sup>2) counts) / real (length counts)"
  let ?mi = "sum_list ia / real (length ia)"
  let ?vi = "sum_list (map (\<lambda>x. (x - ?mi)\<^sup>2) ia) / real (length ia)"
  let ?mean_ia = "if ia = [] then None else Some (Float ?mi)"
  let ?var_ia = "if ia = [] then None else Some (Float ?vi)"
  have py: "stats_py counts ia = Inr (Float ?m, Float ?v, ?mean_ia, ?var_ia)"
    using assms by (rule stats_py_nonempty)
  have np: "stats_np counts ia = (Float ?m, Float ?v, ?mean_ia, ?var_ia)"
    using assms by (rule stats_np_nonempty)
  have m: "?m = (\<Sum>k<length counts. real_of_int (counts ! k)) / real (length counts)"
    by (simp only: real_of_int_sum_list [symmetric] sum_list_nth_real)
  have v: "?v = (\<Sum>k<length counts. (real_of_int (counts ! k) - ?m)\<^sup>2) / real (length counts)"
    by (simp only: sum_list_nth_real)
  have mi: "?mi = (\<Sum>k<length ia. ia ! k) / real (length ia)"
    using sum_list_nth_real [of "\<lambda>x. x" ia] by simp
  have vi: "?vi = (\<Sum>k<length ia. (ia ! k - ?mi)\<^sup>2) / real (length ia)"
    by (simp only: sum_list_nth_real)
  have none: "ia = [] \<longrightarrow> ?mean_ia = None \<and> ?var_ia = None" by simp
  have some: "ia \<noteq> [] \<longrightarrow>
      (\<exists>mi vi. ?mean_ia = Some (Float mi) \<and> ?var_ia = Some (Float vi)
         \<and> mi = (\<Sum>k<length ia. ia ! k) / real (length ia)
         \<and> vi = (\<Sum>k<length ia. (ia ! k - mi)\<^sup>2) / real (length ia))"
    using mi vi by auto
  from py np m v none some show ?thesis by blast
qed

theorem population_variance_witness:
  "[1, 3 :: int] \<noteq> [] \<and> [1/4, 3/4 :: real] \<noteq> []
   \<and> stats_py [1, 3] [1/4, 3/4] = Inr (Float 2, Float 1, Some (Float (1/2)), Some (Float (1/16)))
   \<and> stats_np [1, 3] [1/4, 3/4] = (Float 2, Float 1, Some (Float (1/2)), Some (Float (1/16)))
   \<and> stats_py [1, 3] [] = Inr (Float 2, Float 1, None, None)
   \<and> stats_np [1, 3] [] = (Float 2, Float 1, None, None)"
proof -
  have ne: "[1, 3 :: int] \<noteq> []" by simp
  have two: "{..<2::nat} = {0, 1}" by auto
  have ia_ne: "[1/4, 3/4 :: real] \<noteq> []" by simp
  from population_variance [OF ne, of "[1/4, 3/4]"]
  obtain m v :: real and mean_ia var_ia
    where py0: "stats_py [1, 3] [1/4, 3/4] = Inr (Float m, Float v, mean_ia, var_ia)"
      and np0: "stats_np [1, 3] [1/4, 3/4] = (Float m, Float v, mean_ia, var_ia)"
      and m: "m = (\<Sum>k<length [1, 3 :: int]. real_of_int ([1, 3] ! k)) / real (length [1, 3 :: int])"
      and v: "v = (\<Sum>k<length [1, 3 :: int]. (real_of_int ([1, 3] ! k) - m)\<^sup>2)
                    / real (length [1, 3 :: int])"
      and some: "[1/4, 3/4 :: real] \<noteq> [] \<longrightarrow>
         (\<exists>mi vi. mean_ia = Some (Float mi) \<and> var_ia = Some (Float vi)
            \<and> mi = (\<Sum>k<length [1/4, 3/4 :: real]. [1/4, 3/4] ! k)
                     / real (length [1/4, 3/4 :: real])
            \<and> vi = (\<Sum>k<length [1/4, 3/4 :: real]. ([1/4, 3/4] ! k - mi)\<^sup>2)
                     / real (length [1/4, 3/4 :: real]))"
    by blast
  from some ia_ne obtain mi vi :: real
    where ia: "mean_ia = Some (Float mi)" "var_ia = Some (Float vi)"
      and mi: "mi = (\<Sum>k<length [1/4, 3/4 :: real]. [1/4, 3/4] ! k) / real (length [1/4, 3/4 :: real])"
      and vi: "vi = (\<Sum>k<length [1/4, 3/4 :: real]. ([1/4, 3/4] ! k - mi)\<^sup>2)
                    / real (length [1/4, 3/4 :: real])"
    by blast
  note py = py0 [unfolded ia] and np = np0 [unfolded ia]
  from m have m2: "m = 2" by (simp add: two)
  from v have v1: "v = 1" unfolding m2 by (simp add: two)
  from mi have mi2: "mi = 1/2" by (simp add: two)
  from vi have vi2: "vi = 1/16" unfolding mi2 by (simp add: two power2_eq_square)
  from py np have full: "stats_py [1, 3] [1/4, 3/4]
                = Inr (Float 2, Float 1, Some (Float (1/2)), Some (Float (1/16)))
            \<and> stats_np [1, 3] [1/4, 3/4]
                = (Float 2, Float 1, Some (Float (1/2)), Some (Float (1/16)))"
    unfolding m2 v1 mi2 vi2 by simp
  from population_variance [OF ne, of "[]"]
  have empty: "stats_py [1, 3] [] = Inr (Float 2, Float 1, None, None)
             \<and> stats_np [1, 3] [] = (Float 2, Float 1, None, None)"
    by (auto simp add: two power2_eq_square)
  from ne full empty show ?thesis by simp
qed












end
